theory Spec2Isabelle
  imports Main "HOL-Library.Word"
begin

unbundle bit_operations_syntax

section \<open>Data model\<close>

text \<open>
  Bytes are 8-bit words, a Python \<open>bytes\<close> value is a list of them.  A Python \<open>str\<close>
  is a list of Unicode code points.  \<open>ascii\<close> turns a literal into a \<open>str\<close>, \<open>lit\<close>
  into a \<open>bytes\<close> value (for \<open>b"..."\<close> literals).
\<close>

type_synonym byte = "8 word"
type_synonym str = "nat list"

definition ascii :: "string \<Rightarrow> str" where
  "ascii s = map of_char s"

definition lit :: "string \<Rightarrow> byte list" where
  "lit s = map of_char s"

text \<open>The exceptions that the modelled statements can raise.\<close>

datatype error = IndexError | StructError | ValueError

definition START_MARK :: byte where
  "START_MARK = 0xAA"

definition END_MARK :: byte where
  "END_MARK = 0x55"

subsection \<open>The serial port and the process environment\<close>

text \<open>
  \<open>rx\<close> holds the bytes that the peer sends, grouped in bursts: all bytes of one burst
  reach a pending read before its timeout, and the boundary between two bursts is a gap
  in which a pending read times out.  An empty \<open>rx\<close> is a silent line.  \<open>tx\<close> collects
  what the program writes to the port, \<open>stdout\<close> the arguments of its \<open>print\<close> calls, and
  \<open>files\<close> the files it writes, in order: the entry \<open>(n, c)\<close> stands for writing
  \<open>c\<close> to \<open>received_n.bin\<close>.
\<close>

record world =
  rx :: "byte list list"
  tx :: "byte list"
  stdout :: "str list"
  files :: "(int \<times> byte list) list"

text \<open>
  \<open>ser.read(n)\<close> with a timeout: \<open>n\<close> bytes when the current burst has them, otherwise
  the rest of the burst (the read timed out, and the next read starts at the next burst).
\<close>

definition ser_read :: "nat \<Rightarrow> world \<Rightarrow> byte list \<times> world" where
  "ser_read n w =
     (case rx w of
        [] \<Rightarrow> ([], w)
      | b # bs \<Rightarrow>
          if n \<le> length b then (take n b, w\<lparr>rx := drop n b # bs\<rparr>)
          else (b, w\<lparr>rx := bs\<rparr>))"

text \<open>
  \<open>ser.readline()\<close> reads single bytes until it has read a newline or a read times out.
\<close>

definition ser_readline :: "world \<Rightarrow> byte list \<times> world" where
  "ser_readline w =
     (case rx w of
        [] \<Rightarrow> ([], w)
      | b # bs \<Rightarrow>
          (case dropWhile (\<lambda>x. x \<noteq> 10) b of
             [] \<Rightarrow> (b, w\<lparr>rx := bs\<rparr>)
           | nl # r \<Rightarrow> (takeWhile (\<lambda>x. x \<noteq> 10) b @ [nl], w\<lparr>rx := r # bs\<rparr>)))"

definition ser_write :: "byte list \<Rightarrow> world \<Rightarrow> world" where
  "ser_write bs w = w\<lparr>tx := tx w @ bs\<rparr>"

definition py_print :: "str \<Rightarrow> world \<Rightarrow> world" where
  "py_print s w = w\<lparr>stdout := stdout w @ [s]\<rparr>"

subsection \<open>Library operations that can raise\<close>

text \<open>\<open>xs[i]\<close> for a non-negative index.\<close>

definition py_index :: "'a list \<Rightarrow> nat \<Rightarrow> error + 'a" where
  "py_index xs i = (if i < length xs then Inr (xs ! i) else Inl IndexError)"

text \<open>\<open>struct.unpack(">I", hdr)[0]\<close>: the buffer must hold exactly four bytes.\<close>

definition struct_unpack_be32 :: "byte list \<Rightarrow> error + nat" where
  "struct_unpack_be32 hdr =
     (if length hdr = 4 then Inr (foldl (\<lambda>acc b. 256 * acc + unat b) 0 hdr)
      else Inl StructError)"

text \<open>\<open>struct.pack(">I", n)\<close> for \<open>n \<ge> 0\<close>: the value must fit 32 bits.\<close>

definition struct_pack_be32 :: "nat \<Rightarrow> error + byte list" where
  "struct_pack_be32 n =
     (if n < 2 ^ 32
      then Inr [of_nat (n div 2 ^ 24), of_nat (n div 2 ^ 16), of_nat (n div 2 ^ 8), of_nat n]
      else Inl StructError)"

section \<open>The frame codec\<close>

text \<open>
  \<open>read_frame\<close> of the receiver.  \<open>not b or b[0] != START_MARK\<close> and
  \<open>len(tail) != 1 or tail[0] != END_MARK\<close> evaluate the index only when the first
  disjunct is false.
\<close>

definition read_frame :: "world \<Rightarrow> error + (byte list option \<times> world)" where
  "read_frame w0 =
     (case ser_read 1 w0 of (b, w1) \<Rightarrow>
      case (if b = [] then Inr True
            else map_sum id (\<lambda>x. x \<noteq> START_MARK) (py_index b 0)) of
        Inl e \<Rightarrow> Inl e
      | Inr True \<Rightarrow> Inr (None, w1)
      | Inr False \<Rightarrow>
          (case ser_read 4 w1 of (hdr, w2) \<Rightarrow>
           if length hdr \<noteq> 4 then Inr (None, w2)
           else
             case struct_unpack_be32 hdr of
               Inl e \<Rightarrow> Inl e
             | Inr n \<Rightarrow>
                 (case ser_read n w2 of (data, w3) \<Rightarrow>
                  case ser_read 1 w3 of (tail, w4) \<Rightarrow>
                  case (if length tail \<noteq> 1 then Inr True
                        else map_sum id (\<lambda>x. x \<noteq> END_MARK) (py_index tail 0)) of
                    Inl e \<Rightarrow> Inl e
                  | Inr True \<Rightarrow>
                      Inr (Some data, py_print (ascii ''[WARN] Bad tail marker'') w4)
                  | Inr False \<Rightarrow> Inr (Some data, w4))))"

text \<open>
  \<open>send_frame\<close> of the simulated peer.  The start marker is written before
  \<open>struct.pack\<close> can raise; a raised exception ends the program, so the result then is
  the exception only.
\<close>

definition send_frame :: "world \<Rightarrow> byte list \<Rightarrow> error + world" where
  "send_frame ser data =
     (case ser_write [START_MARK] ser of w1 \<Rightarrow>
      case struct_pack_be32 (length data) of
        Inl e \<Rightarrow> Inl e
      | Inr hdr \<Rightarrow> Inr (ser_write [END_MARK] (ser_write data (ser_write hdr w1))))"

section \<open>Text operations\<close>

text \<open>
  \<open>bytes.decode(errors='ignore')\<close> decodes UTF-8 and drops every byte that is not part of
  a well-formed sequence.  \<open>utf8_len\<close> is the length of the well-formed sequence at the
  head of the input, 0 when there is none; \<open>utf8_cp\<close> is its code point.
\<close>

definition is_cont :: "byte \<Rightarrow> bool" where
  "is_cont b = (0x80 \<le> b \<and> b \<le> 0xBF)"

definition utf8_len :: "byte list \<Rightarrow> nat" where
  "utf8_len s =
     (case s of
        [] \<Rightarrow> 0
      | b0 # bs \<Rightarrow>
          if b0 < 0x80 then 1
          else if 0xC2 \<le> b0 \<and> b0 \<le> 0xDF then
            (case bs of
               b1 # _ \<Rightarrow> if is_cont b1 then 2 else 0
             | _ \<Rightarrow> 0)
          else if 0xE0 \<le> b0 \<and> b0 \<le> 0xEF then
            (case bs of
               b1 # b2 # _ \<Rightarrow>
                 if is_cont b1 \<and> is_cont b2 \<and> (if b0 = 0xE0 then 0xA0 \<le> b1 else True)
                    \<and> (if b0 = 0xED then b1 \<le> 0x9F else True)
                 then 3 else 0
             | _ \<Rightarrow> 0)
          else if 0xF0 \<le> b0 \<and> b0 \<le> 0xF4 then
            (case bs of
               b1 # b2 # b3 # _ \<Rightarrow>
                 if is_cont b1 \<and> is_cont b2 \<and> is_cont b3
                    \<and> (if b0 = 0xF0 then 0x90 \<le> b1 else True)
                    \<and> (if b0 = 0xF4 then b1 \<le> 0x8F else True)
                 then 4 else 0
             | _ \<Rightarrow> 0)
          else 0)"

fun utf8_cp :: "byte list \<Rightarrow> nat" where
  "utf8_cp [b0] = unat b0"
| "utf8_cp [b0, b1] = unat b0 mod 32 * 64 + unat b1 mod 64"
| "utf8_cp [b0, b1, b2] = unat b0 mod 16 * 4096 + unat b1 mod 64 * 64 + unat b2 mod 64"
| "utf8_cp [b0, b1, b2, b3] =
     unat b0 mod 8 * 262144 + unat b1 mod 64 * 4096 + unat b2 mod 64 * 64 + unat b3 mod 64"
| "utf8_cp _ = 0"

fun utf8_decode_ignore :: "byte list \<Rightarrow> str" where
  "utf8_decode_ignore [] = []"
| "utf8_decode_ignore (b # bs) =
     (if utf8_len (b # bs) = 0 then utf8_decode_ignore bs
      else utf8_cp (b # take (utf8_len (b # bs) - 1) bs)
             # utf8_decode_ignore (drop (utf8_len (b # bs) - 1) bs))"

text \<open>The code points that \<open>str.strip()\<close> removes (\<open>str.isspace\<close>).\<close>

definition is_space :: "nat \<Rightarrow> bool" where
  "is_space c =
     ((0x09 \<le> c \<and> c \<le> 0x0D) \<or> (0x1C \<le> c \<and> c \<le> 0x20) \<or> c = 0x85 \<or> c = 0xA0
      \<or> c = 0x1680 \<or> (0x2000 \<le> c \<and> c \<le> 0x200A) \<or> c = 0x2028 \<or> c = 0x2029
      \<or> c = 0x202F \<or> c = 0x205F \<or> c = 0x3000)"

definition py_strip :: "str \<Rightarrow> str" where
  "py_strip s = rev (dropWhile is_space (rev (dropWhile is_space s)))"

definition startswith :: "str \<Rightarrow> str \<Rightarrow> bool" where
  "startswith s p = (take (length p) s = p)"

text \<open>\<open>p in s\<close> for strings.\<close>

fun py_in :: "str \<Rightarrow> str \<Rightarrow> bool" where
  "py_in p [] = (p = [])"
| "py_in p (c # cs) = (startswith (c # cs) p \<or> py_in p cs)"

text \<open>
  \<open>s.split(sep)\<close>: the pieces between the occurrences of \<open>sep\<close>, found from the left; an
  empty separator raises.  \<open>split_acc\<close> is only called with a non-empty separator, for
  which \<open>drop (length sep - 1) cs\<close> is the input after the separator.
\<close>

fun split_acc :: "str \<Rightarrow> str \<Rightarrow> str \<Rightarrow> str list" where
  "split_acc sep acc [] = [acc]"
| "split_acc sep acc (c # cs) =
     (if startswith (c # cs) sep then acc # split_acc sep [] (drop (length sep - 1) cs)
      else split_acc sep (acc @ [c]) cs)"

definition py_split :: "str \<Rightarrow> str \<Rightarrow> error + str list" where
  "py_split sep s = (if sep = [] then Inl ValueError else Inr (split_acc sep [] s))"

section \<open>SHA-256\<close>

text \<open>
  \<open>hashlib.sha256(m).hexdigest()\<close>, following FIPS 180-4: the message is padded to a
  multiple of 64 bytes, each block goes through 64 rounds over a sliding window of the
  message schedule, and the eight state words are printed in lowercase hexadecimal.
\<close>

type_synonym u32 = "32 word"

definition rotr :: "nat \<Rightarrow> u32 \<Rightarrow> u32" where
  "rotr n x = drop_bit n x OR push_bit (32 - n) x"

definition ch :: "u32 \<Rightarrow> u32 \<Rightarrow> u32 \<Rightarrow> u32" where
  "ch x y z = (x AND y) XOR (NOT x AND z)"

definition maj :: "u32 \<Rightarrow> u32 \<Rightarrow> u32 \<Rightarrow> u32" where
  "maj x y z = (x AND y) XOR (x AND z) XOR (y AND z)"

definition bsig0 :: "u32 \<Rightarrow> u32" where
  "bsig0 x = rotr 2 x XOR rotr 13 x XOR rotr 22 x"

definition bsig1 :: "u32 \<Rightarrow> u32" where
  "bsig1 x = rotr 6 x XOR rotr 11 x XOR rotr 25 x"

definition ssig0 :: "u32 \<Rightarrow> u32" where
  "ssig0 x = rotr 7 x XOR rotr 18 x XOR drop_bit 3 x"

definition ssig1 :: "u32 \<Rightarrow> u32" where
  "ssig1 x = rotr 17 x XOR rotr 19 x XOR drop_bit 10 x"

definition sha256_K :: "u32 list" where
  "sha256_K =
    [0x428A2F98, 0x71374491, 0xB5C0FBCF, 0xE9B5DBA5,
     0x3956C25B, 0x59F111F1, 0x923F82A4, 0xAB1C5ED5,
     0xD807AA98, 0x12835B01, 0x243185BE, 0x550C7DC3,
     0x72BE5D74, 0x80DEB1FE, 0x9BDC06A7, 0xC19BF174,
     0xE49B69C1, 0xEFBE4786, 0x0FC19DC6, 0x240CA1CC,
     0x2DE92C6F, 0x4A7484AA, 0x5CB0A9DC, 0x76F988DA,
     0x983E5152, 0xA831C66D, 0xB00327C8, 0xBF597FC7,
     0xC6E00BF3, 0xD5A79147, 0x06CA6351, 0x14292967,
     0x27B70A85, 0x2E1B2138, 0x4D2C6DFC, 0x53380D13,
     0x650A7354, 0x766A0ABB, 0x81C2C92E, 0x92722C85,
     0xA2BFE8A1, 0xA81A664B, 0xC24B8B70, 0xC76C51A3,
     0xD192E819, 0xD6990624, 0xF40E3585, 0x106AA070,
     0x19A4C116, 0x1E376C08, 0x2748774C, 0x34B0BCB5,
     0x391C0CB3, 0x4ED8AA4A, 0x5B9CCA4F, 0x682E6FF3,
     0x748F82EE, 0x78A5636F, 0x84C87814, 0x8CC70208,
     0x90BEFFFA, 0xA4506CEB, 0xBEF9A3F7, 0xC67178F2]"

definition sha256_H0 :: "u32 list" where
  "sha256_H0 =
    [0x6A09E667, 0xBB67AE85, 0x3C6EF372, 0xA54FF53A,
     0x510E527F, 0x9B05688C, 0x1F83D9AB, 0x5BE0CD19]"

fun be_word :: "byte list \<Rightarrow> u32" where
  "be_word [] = 0"
| "be_word (b # bs) = push_bit (8 * length bs) (ucast b) OR be_word bs"

fun be_words :: "byte list \<Rightarrow> u32 list" where
  "be_words (b0 # b1 # b2 # b3 # bs) = be_word [b0, b1, b2, b3] # be_words bs"
| "be_words _ = []"

definition sha256_pad :: "byte list \<Rightarrow> byte list" where
  "sha256_pad m =
     m @ [0x80] @ replicate ((119 - length m mod 64) mod 64) 0 @
     map (\<lambda>i. ucast (drop_bit (8 * i) (of_nat (8 * length m) :: 64 word)))
       [7, 6, 5, 4, 3, 2, 1, 0]"

fun sha256_round :: "u32 \<Rightarrow> u32 \<Rightarrow> u32 list \<Rightarrow> u32 list" where
  "sha256_round k w [a, b, c, d, e, f, g, h] =
     (let t1 = h + bsig1 e + ch e f g + k + w;
          t2 = bsig0 a + maj a b c
      in [t1 + t2, a, b, c, d + t1, e, f, g])"
| "sha256_round k w s = s"

text \<open>The window holds the next 16 words of the message schedule.\<close>

definition sha256_next_w :: "u32 list \<Rightarrow> u32 list" where
  "sha256_next_w w = tl w @ [ssig1 (w ! 14) + w ! 9 + ssig0 (w ! 1) + w ! 0]"

fun sha256_rounds :: "u32 list \<Rightarrow> u32 list \<Rightarrow> u32 list \<Rightarrow> u32 list" where
  "sha256_rounds [] w s = s"
| "sha256_rounds (k # ks) w s =
     sha256_rounds ks (sha256_next_w w) (sha256_round k (w ! 0) s)"

definition sha256_block :: "u32 list \<Rightarrow> byte list \<Rightarrow> u32 list" where
  "sha256_block hs blk = map2 (+) hs (sha256_rounds sha256_K (be_words blk) hs)"

function sha256_blocks :: "u32 list \<Rightarrow> byte list \<Rightarrow> u32 list" where
  "sha256_blocks hs m =
     (if length m < 64 then hs
      else sha256_blocks (sha256_block hs (take 64 m)) (drop 64 m))"
  by pat_completeness auto
termination
  by (relation "measure (\<lambda>(hs, m). length m)") auto

declare sha256_blocks.simps [simp del]

definition hex_digit :: "nat \<Rightarrow> char" where
  "hex_digit n = ''0123456789abcdef'' ! n"

definition hex_byte :: "byte \<Rightarrow> string" where
  "hex_byte b = [hex_digit (unat (drop_bit 4 b)), hex_digit (unat (b AND 0x0F))]"

definition word_bytes :: "u32 \<Rightarrow> byte list" where
  "word_bytes w = map (\<lambda>i. ucast (drop_bit (8 * i) w)) [3, 2, 1, 0]"

definition sha256_digest :: "byte list \<Rightarrow> byte list" where
  "sha256_digest m = concat (map word_bytes (sha256_blocks sha256_H0 (sha256_pad m)))"

definition sha256_hex :: "byte list \<Rightarrow> string" where
  "sha256_hex m = concat (map hex_byte (sha256_digest m))"

definition sha256_hexdigest :: "byte list \<Rightarrow> str" where
  "sha256_hexdigest m = ascii (sha256_hex m)"

text \<open>Two test vectors: the empty message and 16 zero bytes.\<close>

lemma sha256_hex_empty:
  "sha256_hex [] = ''e3b0c44298fc1c149afbf4c8996fb92427ae41e4649b934ca495991b7852b855''"
  by code_simp

lemma sha256_hex_zeros16:
  "sha256_hex [0, 0, 0, 0, 0, 0, 0, 0, 0, 0, 0, 0, 0, 0, 0, 0]
     = ''374708fff7719dd5979ec875d56cd2286f6d3cf7ec317a3b25632aab28ec37bb''"
  by code_simp

section \<open>The receiver\<close>

text \<open>The variables of \<open>main\<close>, and the environment it acts on.\<close>

record state =
  io :: world
  ciphertext :: "byte list"
  file_counter :: int
  current_hash_expected :: "str option"

subsection \<open>Reading consumes input\<close>

definition rx_size :: "world \<Rightarrow> nat" where
  "rx_size w = sum_list (map (\<lambda>b. Suc (length b)) (rx w))"

lemma ser_read_size:
  assumes "ser_read n w = (b, w')"
  shows "rx_size w' \<le> rx_size w"
  using assms by (auto simp: ser_read_def rx_size_def split: list.splits if_splits)

lemma ser_read_size_strict:
  assumes "ser_read n w = (b, w')" and "b \<noteq> []"
  shows "rx_size w' < rx_size w"
  using assms by (auto simp: ser_read_def rx_size_def split: list.splits if_splits)

lemma rx_size_print [simp]: "rx_size (py_print s w) = rx_size w"
  by (simp add: rx_size_def py_print_def)

lemma read_frame_size:
  assumes "read_frame w = Inr (Some d, w')"
  shows "rx_size w' < rx_size w"
proof -
  obtain b w1 where r1: "ser_read 1 w = (b, w1)"
    by (cases "ser_read 1 w")
  have b: "b \<noteq> []"
    using assms r1 by (auto simp: read_frame_def)
  obtain hdr w2 where r2: "ser_read 4 w1 = (hdr, w2)"
    by (cases "ser_read 4 w1")
  obtain n where n: "struct_unpack_be32 hdr = Inr n"
    using assms r1 r2 b
    by (auto simp: read_frame_def split: sum.splits bool.splits if_splits)
  obtain data w3 where r3: "ser_read n w2 = (data, w3)"
    by (cases "ser_read n w2")
  obtain tail w4 where r4: "ser_read 1 w3 = (tail, w4)"
    by (cases "ser_read 1 w3")
  have "rx_size w' = rx_size w4"
    using assms r1 r2 n r3 r4 b
    by (auto simp: read_frame_def split: sum.splits bool.splits if_splits)
  then show ?thesis
    using ser_read_size_strict [OF r1 b] ser_read_size [OF r2] ser_read_size [OF r3]
      ser_read_size [OF r4]
    by simp
qed

subsection \<open>The loop of \<open>main\<close>\<close>

text \<open>
  The inner loop of the \<open>CHUNK_START\<close> branch: frames are appended to \<open>ciphertext\<close>
  until \<open>read_frame\<close> returns \<open>None\<close> or an empty payload (\<open>if frame\<close> is false for both).
\<close>

function stream_frames :: "state \<Rightarrow> error + state" where
  "stream_frames st =
     (case read_frame (io st) of
        Inl e \<Rightarrow> Inl e
      | Inr (None, w) \<Rightarrow> Inr (st\<lparr>io := w\<rparr>)
      | Inr (Some frame, w) \<Rightarrow>
          if frame \<noteq> [] then stream_frames (st\<lparr>io := w, ciphertext := ciphertext st @ frame\<rparr>)
          else Inr (st\<lparr>io := w\<rparr>))"
  by pat_completeness auto
termination
  by (relation "measure (\<lambda>st. rx_size (io st))") (auto dest: read_frame_size)

declare stream_frames.simps [simp del]

text \<open>
  The \<open>HASH:\<close> branch after the expected hash has been taken from the line: the digest of
  the buffer is compared with it, the command is written, the buffer is saved under the
  next counter value and cleared.
\<close>

definition on_hash :: "str \<Rightarrow> state \<Rightarrow> state" where
  "on_hash expected st =
     (let w1 = py_print (ascii ''[STM32] Expected HASH: '' @ expected) (io st);
          h = sha256_hexdigest (ciphertext st);
          w2 = py_print (ascii ''[PC] Calculated HASH: '' @ h) w1;
          w3 = (if h \<noteq> expected
                then ser_write (lit ''CUT'' @ [10])
                       (py_print (ascii ''[!] HASH mismatch! Sending CUT'') w2)
                else ser_write (lit ''ALLOW'' @ [10])
                       (py_print (ascii ''[OK] HASH match. Sending ALLOW'') w2));
          n = file_counter st + 1;
          w4 = w3\<lparr>files := files w3 @ [(n, ciphertext st)]\<rparr>
      in st\<lparr>io := w4, ciphertext := [], file_counter := n,
            current_hash_expected := Some expected\<rparr>)"

text \<open>The \<open>if\<close>/\<open>elif\<close> chain of the loop body, for a non-empty line.\<close>

definition handle_line :: "str \<Rightarrow> state \<Rightarrow> error + state" where
  "handle_line line st =
     (if startswith line (ascii ''EVENT:USB_INSERTED'') then
        Inr (st\<lparr>io := py_print (ascii ''[STM32] USB Inserted'') (io st),
                ciphertext := [], current_hash_expected := None\<rparr>)
      else if line = ascii ''CHUNK_START'' then
        stream_frames
          (st\<lparr>io := py_print (ascii ''[STM32] Beginning file stream...'') (io st)\<rparr>)
      else if startswith line (ascii ''HASH:'') then
        (case py_split (ascii ''HASH:'') line of
           Inl e \<Rightarrow> Inl e
         | Inr parts \<Rightarrow>
             (case py_index parts 1 of
                Inl e \<Rightarrow> Inl e
              | Inr p \<Rightarrow> Inr (on_hash (py_strip p) st)))
      else if startswith line (ascii ''ACTION:RELAY_CUT'') then
        Inr (st\<lparr>io := py_print (ascii ''[STM32] Relay CUT acknowledged.'') (io st)\<rparr>)
      else if startswith line (ascii ''ACTION:RELAY_ALLOW'') then
        Inr (st\<lparr>io := py_print (ascii ''[STM32] Relay ALLOW acknowledged.'') (io st)\<rparr>)
      else if startswith line (ascii ''STATUS:COMPLETE'') then
        Inr (st\<lparr>io := py_print (ascii ''[STM32] Transfer complete.'' @ [10]) (io st)\<rparr>)
      else if py_in (ascii ''ERROR'') line then
        Inr (st\<lparr>io := py_print (ascii ''[STM32 ERROR] '' @ line) (io st)\<rparr>)
      else Inr st)"

text \<open>
  The line that the next iteration reads, and one iteration of \<open>while True\<close>: an empty
  line (also a timeout) goes on to the next iteration.
\<close>

definition next_line :: "state \<Rightarrow> str" where
  "next_line st = py_strip (utf8_decode_ignore (fst (ser_readline (io st))))"

definition loop_body :: "state \<Rightarrow> error + state" where
  "loop_body st =
     (let line = next_line st;
          st1 = st\<lparr>io := snd (ser_readline (io st))\<rparr>
      in if line = [] then Inr st1 else handle_line line st1)"

text \<open>
  The loop never ends by itself; \<open>main_loop n\<close> is the state after \<open>n\<close> iterations, or the
  exception that ended the program before.
\<close>

fun main_loop :: "nat \<Rightarrow> state \<Rightarrow> error + state" where
  "main_loop 0 st = Inr st"
| "main_loop (Suc n) st =
     (case loop_body st of
        Inl e \<Rightarrow> Inl e
      | Inr st' \<Rightarrow> main_loop n st')"

text \<open>
  \<open>main\<close> for the first \<open>n\<close> iterations of its loop, on an opened port.  Without a port
  argument it prints the usage and returns.
\<close>

definition init_state :: "str list \<Rightarrow> world \<Rightarrow> state" where
  "init_state argv w =
     \<lparr>io = py_print (ascii ''[INFO] Listening on '' @ argv ! 1) w,
      ciphertext = [], file_counter = 0, current_hash_expected = None\<rparr>"

definition main :: "nat \<Rightarrow> str list \<Rightarrow> world \<Rightarrow> error + world" where
  "main n argv w =
     (if length argv < 2 then
        Inr (py_print (ascii ''Example: python receiver.py COM5'')
              (py_print (ascii ''Usage: python receiver.py <COM_PORT>'') w))
      else map_sum id io (main_loop n (init_state argv w)))"

definition w_empty :: world where
  "w_empty = \<lparr>rx = [], tx = [], stdout = [], files = []\<rparr>"

section \<open>Properties of the frame codec\<close>

lemma unat_byte_of_nat: "unat (of_nat n :: byte) = n mod 256"
  by (simp add: unat_of_nat)

lemma be32_digits:
  fixes n :: nat
  assumes "n < 2 ^ 32"
  shows "256 * (256 * (256 * (n div 2 ^ 24 mod 256) + n div 2 ^ 16 mod 256)
           + n div 2 ^ 8 mod 256) + n mod 256 = n"
proof -
  have a: "n div 2 ^ 24 mod 256 = n div 2 ^ 24"
    using assms by (simp add: less_mult_imp_div_less)
  have b: "n div 2 ^ 16 = 256 * (n div 2 ^ 24) + n div 2 ^ 16 mod 256"
    using div_mult2_eq [of n "2 ^ 16" 256] by (simp add: mult.commute)
  have c: "n div 2 ^ 8 = 256 * (n div 2 ^ 16) + n div 2 ^ 8 mod 256"
    using div_mult2_eq [of n "2 ^ 8" 256] by (simp add: mult.commute)
  have d: "n = 256 * (n div 2 ^ 8) + n mod 256"
    by simp
  show ?thesis
    using a b c d by presburger
qed

lemma unpack_pack_be32:
  assumes "struct_pack_be32 n = Inr hdr"
  shows "struct_unpack_be32 hdr = Inr n" and "length hdr = 4"
  using assms be32_digits [of n]
  by (auto simp: struct_pack_be32_def struct_unpack_be32_def unat_byte_of_nat
      split: if_splits)

lemma ser_read_burst:
  assumes "rx w = (xs @ ys) # later"
  shows "ser_read (length xs) w = (xs, w\<lparr>rx := ys # later\<rparr>)"
  using assms by (simp add: ser_read_def)

lemma ser_read_short:
  assumes "rx w = xs # later" and "length xs < n"
  shows "ser_read n w = (xs, w\<lparr>rx := later\<rparr>)"
  using assms by (simp add: ser_read_def)

lemma ser_read_exact:
  assumes "rx w = xs # later"
  shows "ser_read (length xs) w = (xs, w\<lparr>rx := [] # later\<rparr>)"
  using assms by (simp add: ser_read_def)

lemma ser_read_timeout:
  assumes "rx w = [] # later"
  shows "ser_read (Suc k) w = ([], w\<lparr>rx := later\<rparr>)"
  using assms by (simp add: ser_read_def)

text \<open>
  What \<open>read_frame\<close> does once the start marker and a complete header have arrived in one
  burst: it returns the first \<open>n\<close> of the bytes that follow in the burst, or all of them when
  there are fewer than \<open>n\<close>.
\<close>

lemma read_frame_header:
  assumes "rx w = (START_MARK # hdr @ avail) # later" and "length hdr = 4"
    and "struct_unpack_be32 hdr = Inr n"
  shows "\<exists>w'. read_frame w = Inr (Some (take n avail), w') \<and> tx w' = tx w \<and> files w' = files w"
proof -
  have r1: "ser_read 1 w = ([START_MARK], w\<lparr>rx := (hdr @ avail) # later\<rparr>)"
    using ser_read_burst [of w "[START_MARK]" "hdr @ avail" later] assms(1) by simp
  have r4: "ser_read 4 (w\<lparr>rx := (hdr @ avail) # later\<rparr>) = (hdr, w\<lparr>rx := avail # later\<rparr>)"
    using ser_read_burst [of "w\<lparr>rx := (hdr @ avail) # later\<rparr>" hdr avail later] assms(2)
    by simp
  obtain data w3 where rn: "ser_read n (w\<lparr>rx := avail # later\<rparr>) = (data, w3)"
    by (cases "ser_read n (w\<lparr>rx := avail # later\<rparr>)")
  then have data: "data = take n avail" and w3: "tx w3 = tx w" "files w3 = files w"
    by (auto simp: ser_read_def split: if_splits)
  obtain tail w4 where rt: "ser_read 1 w3 = (tail, w4)"
    by (cases "ser_read 1 w3")
  then have w4: "tx w4 = tx w3" "files w4 = files w3"
    by (auto simp: ser_read_def split: if_splits list.splits)
  show ?thesis
    using r1 r4 rn rt data w3 w4 assms(2,3)
    by (auto simp: read_frame_def py_index_def py_print_def split: sum.splits bool.splits)
qed

lemma read_frame_total: "\<exists>r w'. read_frame w = Inr (r, w')"
  by (auto simp: read_frame_def py_index_def struct_unpack_be32_def
      split: prod.splits sum.splits bool.splits if_splits)

text \<open>
  C2.  Round trip: for every payload that fits the 32-bit length field, \<open>send_frame\<close>
  succeeds and writes the start marker, a four-byte header that unpacks (big-endian) to the
  payload length, the payload and the end marker; \<open>read_frame\<close> on a port where these bytes
  arrive in one burst returns exactly the payload and consumes exactly the frame.
\<close>

theorem frame_roundtrip:
  assumes "length data < 2 ^ 32"
  shows "\<exists>hdr. length hdr = 4 \<and> struct_unpack_be32 hdr = Inr (length data) \<and>
           send_frame s data = Inr (s\<lparr>tx := tx s @ [START_MARK] @ hdr @ data @ [END_MARK]\<rparr>) \<and>
           read_frame (r\<lparr>rx := ([START_MARK] @ hdr @ data @ [END_MARK] @ rest) # later\<rparr>)
             = Inr (Some data, r\<lparr>rx := rest # later\<rparr>)"
proof -
  obtain hdr where hdr: "struct_pack_be32 (length data) = Inr hdr"
    using assms by (simp add: struct_pack_be32_def)
  note up = unpack_pack_be32 [OF hdr]
  let ?r0 = "r\<lparr>rx := ([START_MARK] @ hdr @ data @ [END_MARK] @ rest) # later\<rparr>"
  let ?r1 = "r\<lparr>rx := (hdr @ data @ [END_MARK] @ rest) # later\<rparr>"
  let ?r2 = "r\<lparr>rx := (data @ [END_MARK] @ rest) # later\<rparr>"
  let ?r3 = "r\<lparr>rx := ([END_MARK] @ rest) # later\<rparr>"
  have r1: "ser_read 1 ?r0 = ([START_MARK], ?r1)"
    using ser_read_burst [of ?r0 "[START_MARK]" "hdr @ data @ [END_MARK] @ rest" later] by simp
  have r4: "ser_read 4 ?r1 = (hdr, ?r2)"
    using ser_read_burst [of ?r1 hdr "data @ [END_MARK] @ rest" later] up(2) by simp
  have rn: "ser_read (length data) ?r2 = (data, ?r3)"
    using ser_read_burst [of ?r2 data "[END_MARK] @ rest" later] by simp
  have rt: "ser_read 1 ?r3 = ([END_MARK], r\<lparr>rx := rest # later\<rparr>)"
    using ser_read_burst [of ?r3 "[END_MARK]" rest later] by simp
  have send: "send_frame s data = Inr (s\<lparr>tx := tx s @ [START_MARK] @ hdr @ data @ [END_MARK]\<rparr>)"
    using hdr by (simp add: send_frame_def ser_write_def)
  have recv: "read_frame ?r0 = Inr (Some data, r\<lparr>rx := rest # later\<rparr>)"
    using r1 r4 rn rt up by (simp add: read_frame_def py_index_def)
  show ?thesis
    using up send recv by blast
qed

theorem frame_roundtrip_witness:
  "length [1, 2, 3 :: byte] < 2 ^ 32 \<and>
   (\<exists>hdr. length hdr = 4 \<and> struct_unpack_be32 hdr = Inr (length [1, 2, 3 :: byte]) \<and>
      send_frame w_empty [1, 2, 3] =
        Inr (w_empty\<lparr>tx := tx w_empty @ [START_MARK] @ hdr @ [1, 2, 3] @ [END_MARK]\<rparr>) \<and>
      read_frame (w_empty\<lparr>rx := ([START_MARK] @ hdr @ [1, 2, 3] @ [END_MARK] @ []) # []\<rparr>)
        = Inr (Some [1, 2, 3], w_empty\<lparr>rx := [] # []\<rparr>))"
  using frame_roundtrip [where data = "[1, 2, 3]" and s = w_empty and r = w_empty
      and rest = "[]" and later = "[]"]
  by simp

text \<open>
  C3.  The claim that a returned payload always has the declared length fails: when the
  burst ends before the declared number of bytes, \<open>read_frame\<close> returns the bytes that did
  arrive.  Here the header declares 5 bytes and 2 arrive.
\<close>

theorem read_frame_declared_length_counterexample:
  "read_frame (w_empty\<lparr>rx := [[0xAA, 0, 0, 0, 5, 1, 2]]\<rparr>)
     = Inr (Some [1, 2], w_empty\<lparr>stdout := [ascii ''[WARN] Bad tail marker'']\<rparr>)
   \<and> struct_unpack_be32 [0, 0, 0, 5] = Inr 5
   \<and> length [1, 2 :: byte] \<noteq> 5"
  by (simp add: read_frame_def ser_read_def py_index_def struct_unpack_be32_def py_print_def
      START_MARK_def END_MARK_def w_empty_def)

text \<open>
  C3, amended.  Every payload that \<open>read_frame\<close> returns consists of the first \<open>n\<close> bytes
  that follow the header in its burst, where \<open>n\<close> is the declared length; its length is
  the minimum of \<open>n\<close> and the number of bytes that arrived before the timeout, so it equals
  \<open>n\<close> exactly when at least \<open>n\<close> bytes arrived.
\<close>

theorem read_frame_payload_length:
  assumes "read_frame w = Inr (Some data, w')"
  shows "\<exists>hdr avail later n. rx w = (START_MARK # hdr @ avail) # later \<and> length hdr = 4 \<and>
           struct_unpack_be32 hdr = Inr n \<and> data = take n avail \<and>
           length data = min n (length avail)"
proof -
  obtain b bs where rxw: "rx w = b # bs"
    using assms by (cases "rx w") (auto simp: read_frame_def ser_read_def)
  have "b \<noteq> []"
    using assms rxw by (auto simp: read_frame_def ser_read_def)
  then obtain x xs where b: "b = x # xs"
    by (cases b) auto
  have x: "x = START_MARK"
    using assms rxw b
    by (auto simp: read_frame_def ser_read_def py_index_def split: bool.splits)
  have r1: "ser_read 1 w = ([START_MARK], w\<lparr>rx := xs # bs\<rparr>)"
    using rxw b x by (simp add: ser_read_def)
  have len4: "4 \<le> length xs"
    using assms r1
    by (auto simp: read_frame_def ser_read_def [of 4] py_index_def split: if_splits)
  define hdr where "hdr = take 4 xs"
  define avail where "avail = drop 4 xs"
  have xs: "xs = hdr @ avail" and lh: "length hdr = 4"
    using len4 by (simp_all add: hdr_def avail_def)
  obtain n where n: "struct_unpack_be32 hdr = Inr n"
    using lh by (simp add: struct_unpack_be32_def)
  from read_frame_header [of w hdr avail bs n]
  obtain w'' where "read_frame w = Inr (Some (take n avail), w'')"
    using rxw b x xs lh n by auto
  with assms have data: "data = take n avail"
    by simp
  have "rx w = (START_MARK # hdr @ avail) # bs"
    using rxw b x xs by simp
  moreover have "length data = min n (length avail)"
    using data by (simp add: min.commute)
  ultimately show ?thesis
    using lh n data by blast
qed

theorem read_frame_payload_length_witness:
  "read_frame (w_empty\<lparr>rx := [[0xAA, 0, 0, 0, 5, 1, 2]]\<rparr>)
     = Inr (Some [1, 2], w_empty\<lparr>stdout := [ascii ''[WARN] Bad tail marker'']\<rparr>)
   \<and> (\<exists>hdr avail later n.
         rx (w_empty\<lparr>rx := [[0xAA, 0, 0, 0, 5, 1, 2]]\<rparr>) = (START_MARK # hdr @ avail) # later \<and>
         length hdr = 4 \<and> struct_unpack_be32 hdr = Inr n \<and> [1, 2] = take n avail \<and>
         length [1, 2 :: byte] = min n (length avail))"
proof -
  have run: "read_frame (w_empty\<lparr>rx := [[0xAA, 0, 0, 0, 5, 1, 2]]\<rparr>)
     = Inr (Some [1, 2], w_empty\<lparr>stdout := [ascii ''[WARN] Bad tail marker'']\<rparr>)"
    by (simp add: read_frame_def ser_read_def py_index_def struct_unpack_be32_def py_print_def
        START_MARK_def END_MARK_def w_empty_def)
  show ?thesis
    using run read_frame_payload_length [OF run] by simp
qed

text \<open>
  C9.  A frame whose header declares \<open>n\<close> payload bytes, of which fewer than \<open>n\<close> arrive
  before the timeout, does not make \<open>read_frame\<close> raise: no index is read out of range and
  \<open>struct.unpack\<close> gets its four bytes.  The result is defined, it is the truncated payload,
  and nothing is written to the port or to a file.
\<close>

theorem truncated_frame_defined:
  assumes "rx w = (START_MARK # hdr @ avail) # later" and "length hdr = 4"
    and "struct_unpack_be32 hdr = Inr n" and "length avail < n"
  shows "\<exists>w'. read_frame w = Inr (Some avail, w') \<and> tx w' = tx w \<and> files w' = files w"
  using read_frame_header [OF assms(1,2,3)] assms(4) by simp

theorem truncated_frame_defined_witness:
  "rx (w_empty\<lparr>rx := [[0xAA, 0, 0, 0, 5, 1, 2]]\<rparr>) = (START_MARK # [0, 0, 0, 5] @ [1, 2]) # [] \<and>
   length [0, 0, 0, 5 :: byte] = 4 \<and> struct_unpack_be32 [0, 0, 0, 5] = Inr 5 \<and>
   length [1, 2 :: byte] < 5 \<and>
   (\<exists>w'. read_frame (w_empty\<lparr>rx := [[0xAA, 0, 0, 0, 5, 1, 2]]\<rparr>) = Inr (Some [1, 2], w') \<and>
      tx w' = tx (w_empty\<lparr>rx := [[0xAA, 0, 0, 0, 5, 1, 2]]\<rparr>) \<and>
      files w' = files (w_empty\<lparr>rx := [[0xAA, 0, 0, 0, 5, 1, 2]]\<rparr>))"
proof -
  have a: "rx (w_empty\<lparr>rx := [[0xAA, 0, 0, 0, 5, 1, 2]]\<rparr>) = (START_MARK # [0, 0, 0, 5] @ [1, 2]) # []"
    by (simp add: START_MARK_def)
  have b: "length [0, 0, 0, 5 :: byte] = 4"
    by simp
  have c: "struct_unpack_be32 [0, 0, 0, 5] = Inr 5"
    by (simp add: struct_unpack_be32_def)
  have d: "length [1, 2 :: byte] < 5"
    by simp
  show ?thesis
    using a b c d truncated_frame_defined [OF a b c d] by blast
qed

end
